theory Spec2Isabelle
  imports Complex_Main
begin

section \<open>Python and numpy values\<close>

text \<open>
  Exceptions are values.  \<open>ValueError\<close> carries its message, because the services raise
  it with fixed texts; \<open>LibraryError\<close> stands for whatever an external library call
  (PIL, cv2, mediapipe, librosa, torch) raises, which the services log and re-raise.
\<close>

datatype py_error =
    ValueError string
  | IndexError
  | TypeError
  | AttributeError
  | LibraryError

text \<open>
  A floating-point number: a finite value or one of the IEEE specials.  Finite arithmetic
  is idealised (no rounding); what the specials do is written out where the code can
  produce them.
\<close>

datatype npfloat = Fin real | PInf | NInf | NaN

fun np_isfinite :: "npfloat \<Rightarrow> bool" where
  "np_isfinite (Fin x) = True"
| "np_isfinite PInf = False"
| "np_isfinite NInf = False"
| "np_isfinite NaN = False"

text \<open>The comparison \<open>a <= b\<close> of two floats: false as soon as one side is NaN.\<close>

fun np_le :: "npfloat \<Rightarrow> npfloat \<Rightarrow> bool" where
  "np_le NaN b = False"
| "np_le a NaN = False"
| "np_le NInf b = True"
| "np_le a PInf = True"
| "np_le (Fin a) (Fin b) = (a \<le> b)"
| "np_le PInf b = False"
| "np_le (Fin a) NInf = False"

text \<open>
  Elementwise division of a finite value by a finite scalar, as numpy does it: dividing by
  zero raises nothing (a RuntimeWarning at most), it yields NaN for \<open>0 / 0\<close> and an
  infinity otherwise.
\<close>

definition np_div :: "real \<Rightarrow> real \<Rightarrow> npfloat" where
  "np_div a b =
     (if b = 0 then (if a = 0 then NaN else if 0 < a then PInf else NInf)
      else Fin (a / b))"

text \<open>\<open>np.mean\<close> of a flat array; of an empty one it is NaN (with a warning).\<close>

definition np_mean :: "real list \<Rightarrow> npfloat" where
  "np_mean xs = (if xs = [] then NaN else Fin (sum_list xs / real (length xs)))"

text \<open>
  \<open>np.argmax\<close>, following numpy's loop: the running maximum \<open>mp\<close> is replaced when
  \<open>\<not> (v <= mp)\<close>, so a later equal value never replaces an earlier one, and a NaN ends
  the scan at once.  An empty array raises ValueError.
\<close>

fun argmax_from :: "npfloat \<Rightarrow> nat \<Rightarrow> nat \<Rightarrow> npfloat list \<Rightarrow> nat" where
  "argmax_from mp max_ind i [] = max_ind"
| "argmax_from mp max_ind i (v # vs) =
     (if np_le v mp then argmax_from mp max_ind (Suc i) vs
      else if v = NaN then i
      else argmax_from v i (Suc i) vs)"

definition np_argmax :: "npfloat list \<Rightarrow> py_error + nat" where
  "np_argmax ps =
     (case ps of
        [] \<Rightarrow> Inl (ValueError ''attempt to get argmax of an empty sequence'')
      | v # vs \<Rightarrow> Inr (if v = NaN then 0 else argmax_from v 0 1 vs))"

text \<open>\<open>int(x)\<close> of a finite float truncates towards zero.\<close>

definition py_int :: "real \<Rightarrow> int" where
  "py_int r = (if 0 \<le> r then \<lfloor>r\<rfloor> else \<lceil>r\<rceil>)"

text \<open>A slice \<open>xs[a:b]\<close>: negative bounds count from the end, all bounds are clamped.\<close>

definition slice_bound :: "int \<Rightarrow> nat \<Rightarrow> nat" where
  "slice_bound i n = (if i < 0 then nat (max 0 (i + int n)) else min (nat i) n)"

definition py_slice :: "int \<Rightarrow> int \<Rightarrow> 'a list \<Rightarrow> 'a list" where
  "py_slice a b xs =
     drop (slice_bound a (length xs)) (take (slice_bound b (length xs)) xs)"

text \<open>\<open>s.startswith(p)\<close> and \<open>s.split(sep)\<close> for a one-character separator.\<close>

definition startswith :: "string \<Rightarrow> string \<Rightarrow> bool" where
  "startswith s p = (take (length p) s = p)"

fun split_on :: "char \<Rightarrow> string \<Rightarrow> string list" where
  "split_on c [] = [[]]"
| "split_on c (x # xs) =
     (if x = c then [] # split_on c xs
      else (case split_on c xs of
              [] \<Rightarrow> [[x]]
            | w # ws \<Rightarrow> (x # w) # ws))"

text \<open>
  Removing the data-URL prefix: \<open>data.split(',')[1]\<close> when the payload starts with the
  given prefix.  Without a comma the index raises IndexError.
\<close>

definition strip_data_url :: "string \<Rightarrow> string \<Rightarrow> py_error + string" where
  "strip_data_url prefix d =
     (if startswith d prefix then
        (case split_on CHR '','' d of
           a # b # rest \<Rightarrow> Inr b
         | _ \<Rightarrow> Inl IndexError)
      else Inr d)"

section \<open>Classifiers\<close>

text \<open>The fixed label list \<open>EMOTIONS\<close> of both services.\<close>

definition EMOTIONS :: "string list" where
  "EMOTIONS = [''angry'', ''disgust'', ''fear'', ''happy'', ''neutral'', ''sad'', ''surprise'']"

text \<open>
  \<open>F.softmax(x, dim=1)\<close> on the one row of logits.  torch subtracts the row maximum
  before exponentiating, so a NaN or \<open>+inf\<close> logit, or a row of \<open>-inf\<close> only, makes every
  output NaN; a \<open>-inf\<close> logit beside a finite one contributes \<open>exp(-inf) = 0\<close>.
\<close>

fun np_exp :: "npfloat \<Rightarrow> real" where
  "np_exp (Fin x) = exp x"
| "np_exp NInf = 0"
| "np_exp PInf = 0"
| "np_exp NaN = 0"

definition softmax :: "npfloat list \<Rightarrow> npfloat list" where
  "softmax zs =
     (if list_ex (\<lambda>z. z = NaN \<or> z = PInf) zs \<or> list_all (\<lambda>z. z = NInf) zs
      then map (\<lambda>z. NaN) zs
      else map (\<lambda>z. Fin (np_exp z / sum_list (map np_exp zs))) zs)"

text \<open>
  The three networks (\<open>EmotionCNN\<close>, \<open>AudioEmotionCNN\<close>, \<open>MultimodalFusionNet\<close>) share one
  shape: layers up to the last hidden activation, then a linear layer with
  \<open>num_classes\<close> output units, then the softmax.  The layers before the last are torch
  code and are taken as the parameter \<open>hidden\<close> (\<open>None\<close> when torch rejects the tensor's
  shape); in evaluation mode, which the loaders set, dropout is the identity.  The last
  layer is given by its units: \<open>logit m i h\<close> is the output of unit \<open>i\<close>.
\<close>

record ('x, 'h) classifier =
  num_classes :: nat
  hidden :: "'x \<Rightarrow> 'h option"
  logit :: "nat \<Rightarrow> 'h \<Rightarrow> npfloat"

definition forward :: "('x, 'h) classifier \<Rightarrow> 'x \<Rightarrow> py_error + npfloat list" where
  "forward m x =
     (case hidden m x of
        None \<Rightarrow> Inl LibraryError
      | Some h \<Rightarrow> Inr (softmax (map (\<lambda>i. logit m i h) [0..<num_classes m])))"

text \<open>
  The selection repeated after each forward pass:
  \<open>emotion_idx = np.argmax(probabilities); emotion = EMOTIONS[emotion_idx];
  confidence = float(probabilities[emotion_idx])\<close>.
\<close>

definition select_emotion :: "npfloat list \<Rightarrow> py_error + (string \<times> npfloat)" where
  "select_emotion probabilities =
     (case np_argmax probabilities of
        Inl e \<Rightarrow> Inl e
      | Inr emotion_idx \<Rightarrow>
          (if emotion_idx < length EMOTIONS
           then Inr (EMOTIONS ! emotion_idx, probabilities ! emotion_idx)
           else Inl IndexError))"

text \<open>
  The dictionary \<open>{EMOTIONS[i]: float(probabilities[i]) for i in range(len(EMOTIONS))}\<close>,
  in insertion order; a probability row shorter than the label list raises IndexError.
\<close>

definition emotion_probs :: "npfloat list \<Rightarrow> py_error + (string \<times> npfloat) list" where
  "emotion_probs probabilities =
     (if length probabilities < length EMOTIONS then Inl IndexError
      else Inr (map (\<lambda>i. (EMOTIONS ! i, probabilities ! i)) [0..<length EMOTIONS]))"

section \<open>Emotion detection service\<close>

subsection \<open>Data\<close>

text \<open>
  A decoded image is the \<open>(h, w, 3)\<close> array of 8-bit channels that
  \<open>np.array(image.convert('RGB'))\<close> gives: rows of pixels.
\<close>

type_synonym pixel = "nat \<times> nat \<times> nat"
type_synonym image = "pixel list list"

definition shape0 :: "'a list list \<Rightarrow> nat" where
  "shape0 m = length m"

definition shape1 :: "'a list list \<Rightarrow> nat" where
  "shape1 m = (case m of [] \<Rightarrow> 0 | r # rs \<Rightarrow> length r)"

text \<open>A mediapipe landmark: normalised coordinates and, when present, a visibility.\<close>

record mp_landmark =
  lm_x :: real
  lm_y :: real
  lm_visibility :: "real option"

text \<open>The bounding-box dictionary with keys \<open>x\<close>, \<open>y\<close>, \<open>width\<close>, \<open>height\<close>.\<close>

record bbox =
  bbox_x :: real
  bbox_y :: real
  bbox_width :: real
  bbox_height :: real

record FacialLandmarks =
  landmarks :: "real list list"
  visibility :: "real list"
  bounding_box :: bbox

record EmotionClassification =
  cls_emotion :: string
  cls_confidence :: npfloat
  cls_probabilities :: "(string \<times> npfloat) list"

text \<open>
  \<open>EmotionDetectionResponse\<close>.  Its \<open>wellness_score\<close> is never set by the services and
  its \<open>timestamp\<close> is the clock's; both are left out.  \<open>audio_features\<close> is only ever
  \<open>None\<close> here, so its payload type is a unit.
\<close>

record EmotionDetectionResponse =
  emotion :: string
  confidence :: npfloat
  source :: string
  facial_landmarks :: "real list list option"
  audio_features :: "unit option"

subsection \<open>External collaborators\<close>

text \<open>
  What the service calls and does not define:
  \<^item> \<open>open_image\<close>: \<open>base64.b64decode\<close>, \<open>Image.open\<close>, the conversion to RGB and
    \<open>np.array\<close>; \<open>None\<close> when any of them raises;
  \<^item> \<open>face_mesh_process\<close>: \<open>FaceMesh.process\<close>.  The mesh is created with
    \<open>static_image_mode=False\<close>, so it carries tracking state from call to call: the
    function takes the mesh's state and returns the new one beside the result, which
    is an exception or \<open>multi_face_landmarks\<close> (\<open>None\<close> or a list of faces);
  \<^item> \<open>cv2_resize\<close>: \<open>cv2.resize\<close> to the given size, \<open>None\<close> when it raises (an empty
    region);
  \<^item> \<open>cv2_rgb2gray\<close>: \<open>cv2.cvtColor(_, COLOR_RGB2GRAY)\<close>;
  \<^item> \<open>randn\<close>: \<open>torch.randn(1, n)\<close>, drawing from torch's global generator.
\<close>

record ('fm, 'r) vision_lib =
  open_image :: "string \<Rightarrow> image option"
  face_mesh_process :: "'fm \<Rightarrow> image \<Rightarrow> (py_error + mp_landmark list list option) \<times> 'fm"
  cv2_resize :: "image \<Rightarrow> nat \<times> nat \<Rightarrow> image option"
  cv2_rgb2gray :: "image \<Rightarrow> nat list list"
  randn :: "'r \<Rightarrow> nat \<Rightarrow> real list \<times> 'r"

text \<open>
  The service object: the mediapipe mesh and the two models, each \<open>None\<close> until
  \<open>initialize\<close> has run; and, beside it, the state of torch's global random generator.
\<close>

record ('fm, 'h, 'g, 'r) service =
  face_mesh :: "'fm option"
  emotion_model :: "(npfloat list list, 'h) classifier option"
  multimodal_model :: "(real list \<times> real list, 'g) classifier option"
  torch_rng :: 'r

subsection \<open>Operations\<close>

text \<open>\<open>cv2.cvtColor(image, cv2.COLOR_BGR2RGB)\<close> swaps the outer channels.\<close>

definition bgr2rgb :: "image \<Rightarrow> image" where
  "bgr2rgb img = map (map (\<lambda>(b, g, r). (r, g, b))) img"

definition decode_base64_image :: "('fm, 'r) vision_lib \<Rightarrow> string \<Rightarrow> py_error + image" where
  "decode_base64_image lib image_data =
     (case strip_data_url ''data:image'' image_data of
        Inl e \<Rightarrow> Inl (ValueError ''Invalid image data'')
      | Inr payload \<Rightarrow>
          (case open_image lib payload of
             None \<Rightarrow> Inl (ValueError ''Invalid image data'')
           | Some img \<Rightarrow> Inr img))"

text \<open>
  The landmark record built from the first detected face.  \<open>min\<close> and \<open>max\<close> of an empty
  coordinate list raise ValueError, which the caller's handler turns into \<open>None\<close>.
\<close>

definition landmarks_of_face :: "image \<Rightarrow> mp_landmark list \<Rightarrow> FacialLandmarks option" where
  "landmarks_of_face img face =
     (let h = real (shape0 img); w = real (shape1 img);
          landmark_points = map (\<lambda>l. [lm_x l * w, lm_y l * h]) face;
          visibility_scores = map (\<lambda>l. case lm_visibility l of None \<Rightarrow> 1 | Some v \<Rightarrow> v) face;
          x_coords = map (\<lambda>p. p ! 0) landmark_points;
          y_coords = map (\<lambda>p. p ! 1) landmark_points
      in if face = [] then None
         else Some \<lparr> landmarks = landmark_points,
                     visibility = visibility_scores,
                     bounding_box =
                       \<lparr> bbox_x = Min (set x_coords),
                         bbox_y = Min (set y_coords),
                         bbox_width = Max (set x_coords) - Min (set x_coords),
                         bbox_height = Max (set y_coords) - Min (set y_coords) \<rparr> \<rparr>)"

text \<open>
  \<open>_extract_facial_landmarks\<close>: every exception inside is caught and gives \<open>None\<close>; that
  includes the AttributeError of a mesh that was never initialised.  The mesh's new
  state is returned with the result.
\<close>

definition extract_facial_landmarks ::
  "('fm, 'r) vision_lib \<Rightarrow> 'fm option \<Rightarrow> image \<Rightarrow> FacialLandmarks option \<times> 'fm option" where
  "extract_facial_landmarks lib mesh img =
     (case mesh of
        None \<Rightarrow> (None, None)
      | Some fm \<Rightarrow>
          (case face_mesh_process lib fm (bgr2rgb img) of
             (Inl e, fm') \<Rightarrow> (None, Some fm')
           | (Inr None, fm') \<Rightarrow> (None, Some fm')
           | (Inr (Some []), fm') \<Rightarrow> (None, Some fm')
           | (Inr (Some (face # faces)), fm') \<Rightarrow> (landmarks_of_face img face, Some fm')))"

text \<open>
  \<open>_preprocess_face_for_emotion\<close>: the padded, clamped crop, resized to 48 by 48,
  converted to grey and scaled to the unit range.  The tensor is the 48 by 48 grid
  (its batch and channel axes have length one).
\<close>

definition face_crop :: "image \<Rightarrow> FacialLandmarks \<Rightarrow> image" where
  "face_crop img lms =
     (let b = bounding_box lms;
          x0 = py_int (bbox_x b); y0 = py_int (bbox_y b);
          w0 = py_int (bbox_width b); h0 = py_int (bbox_height b);
          padding = 20;
          x = max 0 (x0 - padding);
          y = max 0 (y0 - padding);
          w = min (int (shape1 img) - x) (w0 + 2 * padding);
          h = min (int (shape0 img) - y) (h0 + 2 * padding)
      in map (py_slice x (x + w)) (py_slice y (y + h) img))"

definition preprocess_face_for_emotion ::
  "('fm, 'r) vision_lib \<Rightarrow> image \<Rightarrow> FacialLandmarks \<Rightarrow> py_error + npfloat list list" where
  "preprocess_face_for_emotion lib img lms =
     (case cv2_resize lib (face_crop img lms) (48, 48) of
        None \<Rightarrow> Inl LibraryError
      | Some face_resized \<Rightarrow>
          Inr (map (map (\<lambda>g. Fin (real g / 255))) (cv2_rgb2gray lib face_resized)))"

text \<open>\<open>_classify_emotion\<close>; calling a model that is still \<open>None\<close> raises TypeError.\<close>

definition classify_emotion ::
  "(npfloat list list, 'h) classifier option \<Rightarrow> npfloat list list \<Rightarrow> py_error + EmotionClassification" where
  "classify_emotion model face_tensor =
     (case model of
        None \<Rightarrow> Inl TypeError
      | Some m \<Rightarrow>
          (case forward m face_tensor of
             Inl e \<Rightarrow> Inl e
           | Inr probabilities \<Rightarrow>
               (case select_emotion probabilities of
                  Inl e \<Rightarrow> Inl e
                | Inr (em, conf) \<Rightarrow>
                    (case emotion_probs probabilities of
                       Inl e \<Rightarrow> Inl e
                     | Inr probs \<Rightarrow>
                         Inr \<lparr> cls_emotion = em, cls_confidence = conf,
                               cls_probabilities = probs \<rparr>))))"

text \<open>
  \<open>detect_emotion\<close>.  \<open>not image_data\<close> holds for \<open>None\<close> and for the empty string.  The
  audio payload and the session id are accepted and never read.  The result comes with
  the service's new state.
\<close>

definition detect_emotion ::
  "('fm, 'r) vision_lib \<Rightarrow> ('fm, 'h, 'g, 'r) service \<Rightarrow> string option \<Rightarrow> string option \<Rightarrow> string
     \<Rightarrow> (py_error + EmotionDetectionResponse) \<times> ('fm, 'h, 'g, 'r) service" where
  "detect_emotion lib s image_data audio_data session_id =
     (case image_data of
        None \<Rightarrow> (Inl (ValueError ''Image data is required for emotion detection''), s)
      | Some [] \<Rightarrow> (Inl (ValueError ''Image data is required for emotion detection''), s)
      | Some (c # cs) \<Rightarrow>
          (case decode_base64_image lib (c # cs) of
             Inl e \<Rightarrow> (Inl e, s)
           | Inr img \<Rightarrow>
               (case extract_facial_landmarks lib (face_mesh s) img of
                  (None, mesh') \<Rightarrow>
                    (Inr \<lparr> emotion = ''neutral'', confidence = Fin (1 / 2), source = ''video'',
                           facial_landmarks = None, audio_features = None \<rparr>,
                     s\<lparr>face_mesh := mesh'\<rparr>)
                | (Some lms, mesh') \<Rightarrow>
                    (case preprocess_face_for_emotion lib img lms of
                       Inl e \<Rightarrow> (Inl e, s\<lparr>face_mesh := mesh'\<rparr>)
                     | Inr face_tensor \<Rightarrow>
                         (case classify_emotion (emotion_model s) face_tensor of
                            Inl e \<Rightarrow> (Inl e, s\<lparr>face_mesh := mesh'\<rparr>)
                          | Inr emotion_result \<Rightarrow>
                              (Inr \<lparr> emotion = cls_emotion emotion_result,
                                     confidence = cls_confidence emotion_result,
                                     source = ''video'',
                                     facial_landmarks = Some (landmarks lms),
                                     audio_features = None \<rparr>,
                               s\<lparr>face_mesh := mesh'\<rparr>))))))"

text \<open>
  \<open>detect_multimodal_emotion\<close>.  With no face it returns a fixed response labelled
  \<open>audio\<close>; with a face it scores two random vectors with the fusion model.
\<close>

definition detect_multimodal_emotion ::
  "('fm, 'r) vision_lib \<Rightarrow> ('fm, 'h, 'g, 'r) service \<Rightarrow> string \<Rightarrow> string \<Rightarrow> string
     \<Rightarrow> (py_error + EmotionDetectionResponse) \<times> ('fm, 'h, 'g, 'r) service" where
  "detect_multimodal_emotion lib s image_data audio_data session_id =
     (case decode_base64_image lib image_data of
        Inl e \<Rightarrow> (Inl e, s)
      | Inr img \<Rightarrow>
          (case extract_facial_landmarks lib (face_mesh s) img of
             (None, mesh') \<Rightarrow>
               (Inr \<lparr> emotion = ''neutral'', confidence = Fin (1 / 2), source = ''audio'',
                      facial_landmarks = None, audio_features = None \<rparr>,
                s\<lparr>face_mesh := mesh'\<rparr>)
           | (Some lms, mesh') \<Rightarrow>
               (let (visual_features, r1) = randn lib (torch_rng s) 512;
                    (audio_feats, r2) = randn lib r1 128;
                    s' = s\<lparr>face_mesh := mesh', torch_rng := r2\<rparr>
                in case multimodal_model s of
                     None \<Rightarrow> (Inl TypeError, s')
                   | Some m \<Rightarrow>
                       (case forward m (visual_features, audio_feats) of
                          Inl e \<Rightarrow> (Inl e, s')
                        | Inr probabilities \<Rightarrow>
                            (case select_emotion probabilities of
                               Inl e \<Rightarrow> (Inl e, s')
                             | Inr (em, conf) \<Rightarrow>
                                 (Inr \<lparr> emotion = em, confidence = conf,
                                        source = ''multimodal'',
                                        facial_landmarks = Some (landmarks lms),
                                        audio_features = None \<rparr>,
                                  s'))))))"

section \<open>Audio processing service\<close>

subsection \<open>Data and external collaborators\<close>

record AudioFeatures =
  mfccs :: "npfloat list"
  pitch :: npfloat
  energy :: npfloat
  spectral_centroid :: npfloat
  zero_crossing_rate :: npfloat
  spectral_rolloff :: npfloat
  chroma :: "npfloat list"

text \<open>The dictionary that \<open>detect_emotion_from_audio\<close> returns.\<close>

record AudioEmotion =
  aud_emotion :: string
  aud_confidence :: npfloat
  aud_audio_features :: AudioFeatures
  aud_probabilities :: "(string \<times> npfloat) list"

text \<open>
  The librosa calls, each already applied to the service's fixed arguments
  (\<open>sr=22050\<close>, \<open>n_mfcc=13\<close>, \<open>n_mels=128\<close>, \<open>fmax=8000\<close>, \<open>ref=np.max\<close>).  A descriptor is
  a two-dimensional array, one column per analysis frame; \<open>None\<close> stands for a raised
  exception.  \<open>load_audio\<close> is \<open>base64.b64decode\<close> followed by \<open>librosa.load\<close>;
  \<open>piptrack\<close> is the first component (the pitches) of \<open>librosa.piptrack\<close>.
\<close>

record audio_lib =
  load_audio :: "string \<Rightarrow> real list option"
  mfcc :: "real list \<Rightarrow> real list list option"
  piptrack :: "real list \<Rightarrow> real list list option"
  rms :: "real list \<Rightarrow> real list list option"
  centroid :: "real list \<Rightarrow> real list list option"
  zcr :: "real list \<Rightarrow> real list list option"
  rolloff :: "real list \<Rightarrow> real list list option"
  chroma_stft :: "real list \<Rightarrow> real list list option"
  melspectrogram :: "real list \<Rightarrow> real list list option"
  power_to_db :: "real list list \<Rightarrow> real list list option"

subsection \<open>Operations\<close>

definition decode_base64_audio :: "audio_lib \<Rightarrow> string \<Rightarrow> py_error + real list" where
  "decode_base64_audio lib audio_data =
     (case strip_data_url ''data:audio'' audio_data of
        Inl e \<Rightarrow> Inl (ValueError ''Invalid audio data'')
      | Inr payload \<Rightarrow>
          (case load_audio lib payload of
             None \<Rightarrow> Inl (ValueError ''Invalid audio data'')
           | Some audio \<Rightarrow> Inr audio))"

text \<open>\<open>np.mean(d(y)[0])\<close>: the mean of the first row of a descriptor.\<close>

definition mean_row0 :: "real list list option \<Rightarrow> py_error + npfloat" where
  "mean_row0 d =
     (case d of
        None \<Rightarrow> Inl LibraryError
      | Some [] \<Rightarrow> Inl IndexError
      | Some (r # rs) \<Rightarrow> Inr (np_mean r))"

text \<open>
  \<open>np.mean(pitches[pitches > 0]) if np.any(pitches > 0) else 0.0\<close>.
\<close>

definition mean_positive :: "real list list \<Rightarrow> npfloat" where
  "mean_positive pitches =
     (if list_ex (\<lambda>p. 0 < p) (concat pitches)
      then np_mean (filter (\<lambda>p. 0 < p) (concat pitches))
      else Fin 0)"

text \<open>
  \<open>extract_audio_features\<close>: seven library descriptors in the source's order, each
  averaged over its frames.  There is no test of the clip's length anywhere; an
  exception of a library call is logged and raised again.
\<close>

definition extract_audio_features :: "audio_lib \<Rightarrow> real list \<Rightarrow> py_error + AudioFeatures" where
  "extract_audio_features lib audio =
     (case mfcc lib audio of
        None \<Rightarrow> Inl LibraryError
      | Some mf \<Rightarrow>
     (case piptrack lib audio of
        None \<Rightarrow> Inl LibraryError
      | Some pitches \<Rightarrow>
     (case mean_row0 (rms lib audio) of
        Inl e \<Rightarrow> Inl e
      | Inr en \<Rightarrow>
     (case mean_row0 (centroid lib audio) of
        Inl e \<Rightarrow> Inl e
      | Inr sc \<Rightarrow>
     (case mean_row0 (zcr lib audio) of
        Inl e \<Rightarrow> Inl e
      | Inr zc \<Rightarrow>
     (case mean_row0 (rolloff lib audio) of
        Inl e \<Rightarrow> Inl e
      | Inr ro \<Rightarrow>
     (case chroma_stft lib audio of
        None \<Rightarrow> Inl LibraryError
      | Some ch \<Rightarrow>
          Inr \<lparr> mfccs = map np_mean mf,
                pitch = mean_positive pitches,
                energy = en,
                spectral_centroid = sc,
                zero_crossing_rate = zc,
                spectral_rolloff = ro,
                chroma = map np_mean ch \<rparr>)))))))"

text \<open>
  The normalisation \<open>(S - np.mean(S)) / np.std(S)\<close> over the whole array (population
  standard deviation).  The divisor is used as it is.
\<close>

definition np_std :: "real list \<Rightarrow> real" where
  "np_std xs =
     (let mu = sum_list xs / real (length xs)
      in sqrt (sum_list (map (\<lambda>x. (x - mu)\<^sup>2) xs) / real (length xs)))"

definition normalize_log_mel :: "real list list \<Rightarrow> npfloat list list" where
  "normalize_log_mel S =
     (let xs = concat S;
          mu = sum_list xs / real (length xs);
          sd = np_std xs
      in map (map (\<lambda>x. np_div (x - mu) sd)) S)"

text \<open>
  The resize to 128 frames: \<open>S[:, :128]\<close> when there are more than 128 columns, and
  otherwise \<open>np.pad(S, ((0, 0), (0, 128 - S.shape[1])), mode='constant')\<close>.
\<close>

definition fix_length :: "npfloat list list \<Rightarrow> npfloat list list" where
  "fix_length S =
     (if 128 < shape1 S then map (take 128) S
      else map (\<lambda>r. r @ replicate (128 - shape1 S) (Fin 0)) S)"

text \<open>
  \<open>_create_spectrogram\<close>.  The tensor is the two-dimensional array (its batch and
  channel axes have length one).
\<close>

definition create_spectrogram :: "audio_lib \<Rightarrow> real list \<Rightarrow> py_error + npfloat list list" where
  "create_spectrogram lib audio =
     (case melspectrogram lib audio of
        None \<Rightarrow> Inl LibraryError
      | Some mel_spec \<Rightarrow>
          (case power_to_db lib mel_spec of
             None \<Rightarrow> Inl LibraryError
           | Some log_mel_spec \<Rightarrow> Inr (fix_length (normalize_log_mel log_mel_spec))))"

text \<open>\<open>detect_emotion_from_audio\<close>; the model is \<open>None\<close> until \<open>initialize\<close> has run.\<close>

definition detect_emotion_from_audio ::
  "audio_lib \<Rightarrow> (npfloat list list, 'h) classifier option \<Rightarrow> string \<Rightarrow> py_error + AudioEmotion" where
  "detect_emotion_from_audio lib audio_model audio_data =
     (case decode_base64_audio lib audio_data of
        Inl e \<Rightarrow> Inl e
      | Inr audio \<Rightarrow>
     (case extract_audio_features lib audio of
        Inl e \<Rightarrow> Inl e
      | Inr features \<Rightarrow>
     (case create_spectrogram lib audio of
        Inl e \<Rightarrow> Inl e
      | Inr spectrogram \<Rightarrow>
     (case audio_model of
        None \<Rightarrow> Inl TypeError
      | Some m \<Rightarrow>
     (case forward m spectrogram of
        Inl e \<Rightarrow> Inl e
      | Inr probabilities \<Rightarrow>
     (case select_emotion probabilities of
        Inl e \<Rightarrow> Inl e
      | Inr (em, conf) \<Rightarrow>
     (case emotion_probs probabilities of
        Inl e \<Rightarrow> Inl e
      | Inr probs \<Rightarrow>
          Inr \<lparr> aud_emotion = em, aud_confidence = conf,
                aud_audio_features = features, aud_probabilities = probs \<rparr>)))))))"

section \<open>Sample collaborators\<close>

text \<open>
  Concrete instances of the external collaborators, on which the operations can be
  evaluated.  Payloads are named by short strings.  The image \<open>wall\<close> is a single grey
  pixel in which the mesh finds no face; in \<open>face\<close>, a 4 by 4 image, it finds one face
  with two landmarks.  The mesh counts its calls; its results do not depend on the
  count.
\<close>

definition face_img :: image where
  "face_img = replicate 4 (replicate 4 (200, 150, 100))"

definition sample_vision_lib :: "(nat, nat) vision_lib" where
  "sample_vision_lib =
     \<lparr> open_image = (\<lambda>p. if p = ''wall'' then Some [[(128, 128, 128)]]
                          else if p = ''face'' then Some face_img else None),
       face_mesh_process = (\<lambda>fm img.
          (if img = bgr2rgb face_img
           then Inr (Some [[\<lparr>lm_x = 1 / 4, lm_y = 1 / 4, lm_visibility = None\<rparr>,
                            \<lparr>lm_x = 3 / 4, lm_y = 3 / 4, lm_visibility = Some 1\<rparr>]])
           else Inr None, Suc fm)),
       cv2_resize = (\<lambda>img (w, h).
          case concat img of [] \<Rightarrow> None | p # ps \<Rightarrow> Some (replicate h (replicate w p))),
       cv2_rgb2gray = map (map (\<lambda>(r, g, b). (r + g + b) div 3)),
       randn = (\<lambda>g n. (replicate n 0, Suc g)) \<rparr>"

text \<open>
  A model with seven output units whose fourth logit is \<open>ln 4\<close> and whose other logits are
  0, whatever the input: its softmax is 0.4 for \<open>happy\<close> and 0.1 for every other label.
\<close>

definition sample_cnn :: "('x, unit) classifier" where
  "sample_cnn =
     \<lparr> num_classes = length EMOTIONS,
       hidden = (\<lambda>x. Some ()),
       logit = (\<lambda>i h. Fin (if i = 3 then ln 4 else 0)) \<rparr>"

definition sample_service :: "(nat, unit, unit, nat) service" where
  "sample_service =
     \<lparr> face_mesh = Some 0, emotion_model = Some sample_cnn,
       multimodal_model = Some sample_cnn, torch_rng = 0 \<rparr>"

text \<open>
  The library's RMS descriptor with its defaults: the signal is padded with 1024 zeros
  on each side, cut into frames of 2048 samples every 512 samples, and each frame gives
  the root of its mean square.
\<close>

definition frame_rms :: "real list \<Rightarrow> real list list" where
  "frame_rms y =
     (let padded = replicate 1024 0 @ y @ replicate 1024 0;
          n_frames = 1 + (length padded - 2048) div 512
      in [map (\<lambda>t. sqrt (sum_list (map (\<lambda>x. x\<^sup>2) (take 2048 (drop (t * 512) padded))) / 2048))
            [0..<n_frames]])"

text \<open>
  The library's conversion of a power array to decibels relative to its maximum
  (\<open>ref=np.max\<close>, \<open>amin=1e-10\<close>, \<open>top_db=80\<close>); the maximum of an empty array raises.
\<close>

definition db_rel_max :: "real list list \<Rightarrow> real list list option" where
  "db_rel_max S =
     (if concat S = [] then None
      else Some
        (let amin = 1 / 10 ^ 10;
             ref_value = Max (set (concat S));
             log_spec = map (map (\<lambda>x. 10 * log 10 (max amin x) - 10 * log 10 (max amin ref_value))) S;
             top = Max (set (concat log_spec))
         in map (map (\<lambda>x. max x (top - 80))) log_spec))"

text \<open>
  A sample audio library.  \<open>silence\<close> is half a second of zeros (11025 samples), \<open>click\<close>
  a single sample of amplitude one.  Energy and the decibel conversion follow the
  library's formulas above.  The mel spectrogram has one column per hop of 512 samples;
  its lower 64 bands carry the clip's total power and its upper 64 bands none, so a
  silent clip has the all-zero mel spectrogram the library gives it.  The other
  descriptors are constant zero.
\<close>

definition sample_audio_lib :: audio_lib where
  "sample_audio_lib =
     \<lparr> load_audio = (\<lambda>p. if p = ''silence'' then Some (replicate 11025 0)
                          else if p = ''click'' then Some [1] else None),
       mfcc = (\<lambda>y. Some (replicate 13 [0])),
       piptrack = (\<lambda>y. Some [[0]]),
       rms = (\<lambda>y. Some (frame_rms y)),
       centroid = (\<lambda>y. Some [[0]]),
       zcr = (\<lambda>y. Some [[0]]),
       rolloff = (\<lambda>y. Some [[0]]),
       chroma_stft = (\<lambda>y. Some (replicate 12 [0])),
       melspectrogram = (\<lambda>y.
          Some (replicate 64 (replicate (1 + length y div 512) (sum_list (map (\<lambda>x. x\<^sup>2) y)))
                @ replicate 64 (replicate (1 + length y div 512) 0))),
       power_to_db = db_rel_max \<rparr>"





text \<open>
  A model for square tensors of the given side, with one output unit per label.  Its
  hidden activation is the tensor's first cell: a cell of at least one half raises the
  logit of \<open>happy\<close>, a smaller one that of \<open>sad\<close>, and a cell that is not finite makes
  every logit NaN, as a NaN does through torch's layers.
\<close>

definition first_cell_cnn :: "nat \<Rightarrow> (npfloat list list, npfloat) classifier" where
  "first_cell_cnn side =
     \<lparr> num_classes = length EMOTIONS,
       hidden = (\<lambda>x. if length x = side \<and> list_all (\<lambda>r. length r = side) x \<and> 0 < side
                      then Some (x ! 0 ! 0) else None),
       logit = (\<lambda>i h. case h of
                  Fin v \<Rightarrow> Fin (if (i = 3 \<and> 1 / 2 \<le> v) \<or> (i = 5 \<and> v < 1 / 2) then ln 4 else 0)
                | PInf \<Rightarrow> NaN
                | NInf \<Rightarrow> NaN
                | NaN \<Rightarrow> NaN) \<rparr>"


text \<open>A feature vector all of whose fields are zero.\<close>

definition zero_filled :: "AudioFeatures \<Rightarrow> bool" where
  "zero_filled f =
     (list_all (\<lambda>v. v = Fin 0) (mfccs f) \<and> pitch f = Fin 0 \<and> energy f = Fin 0 \<and>
      spectral_centroid f = Fin 0 \<and> zero_crossing_rate f = Fin 0 \<and>
      spectral_rolloff f = Fin 0 \<and> list_all (\<lambda>v. v = Fin 0) (chroma f))"

section \<open>Properties of the selection and of the classifiers\<close>

lemma sum_softmax_aux:
  fixes xs :: "real list"
  assumes "xs \<noteq> []"
  shows "sum_list (map (\<lambda>x. exp x / sum_list (map exp xs)) xs) = 1"
proof -
  have pos: "0 < sum_list (map exp xs)"
  proof (cases xs)
    case Nil
    with assms show ?thesis by simp
  next
    case (Cons y ys)
    have "0 \<le> sum_list (map exp ys)" by (rule sum_list_nonneg) auto
    moreover have "0 < exp y" by simp
    ultimately show ?thesis using Cons by (simp add: add_pos_nonneg)
  qed
  have "sum_list (map (\<lambda>x. exp x / sum_list (map exp xs)) xs)
      = sum_list (map exp xs) / sum_list (map exp xs)"
    by (simp add: divide_inverse sum_list_mult_const)
  then show ?thesis using pos by simp
qed

lemma softmax_Fin:
  assumes "xs \<noteq> []"
  shows "softmax (map Fin xs) = map (\<lambda>x. Fin (exp x / sum_list (map exp xs))) xs"
  using assms by (auto simp: softmax_def list_ex_iff list_all_iff o_def neq_Nil_conv)

lemma argmax_from_spec:
  assumes "length pre = i" "k < i" "pre ! k = m"
    and "\<forall>j<i. pre ! j \<le> m" "\<forall>j<k. pre ! j < m"
  shows "let r = argmax_from (Fin m) k i (map Fin ys); zs = pre @ ys in
           r < length zs \<and> (\<forall>j<length zs. zs ! j \<le> zs ! r) \<and> (\<forall>j<r. zs ! j < zs ! r)"
  using assms
proof (induction ys arbitrary: pre i k m)
  case Nil
  then show ?case by (auto simp: Let_def)
next
  case (Cons y ys)
  show ?case
  proof (cases "y \<le> m")
    case True
    have "let r = argmax_from (Fin m) k (Suc i) (map Fin ys); zs = (pre @ [y]) @ ys in
           r < length zs \<and> (\<forall>j<length zs. zs ! j \<le> zs ! r) \<and> (\<forall>j<r. zs ! j < zs ! r)"
      apply (rule Cons.IH)
      using Cons.prems True by (auto simp: nth_append less_Suc_eq)
    then show ?thesis using True by (simp add: Let_def)
  next
    case False
    have "let r = argmax_from (Fin y) i (Suc i) (map Fin ys); zs = (pre @ [y]) @ ys in
           r < length zs \<and> (\<forall>j<length zs. zs ! j \<le> zs ! r) \<and> (\<forall>j<r. zs ! j < zs ! r)"
      apply (rule Cons.IH)
      using Cons.prems False by (auto simp: nth_append less_Suc_eq intro: order.strict_trans1 less_imp_le order_trans)
    then show ?thesis using False by (simp add: Let_def)
  qed
qed

lemma np_argmax_Fin:
  assumes "ps \<noteq> []"
  shows "\<exists>r. np_argmax (map Fin ps) = Inr r \<and> r < length ps \<and>
             (\<forall>j<length ps. ps ! j \<le> ps ! r) \<and> (\<forall>j<r. ps ! j < ps ! r)"
proof -
  from assms obtain y ys where ps: "ps = y # ys" by (cases ps) auto
  have "let r = argmax_from (Fin y) 0 1 (map Fin ys); zs = [y] @ ys in
           r < length zs \<and> (\<forall>j<length zs. zs ! j \<le> zs ! r) \<and> (\<forall>j<r. zs ! j < zs ! r)"
    by (rule argmax_from_spec) auto
  then show ?thesis by (simp add: ps np_argmax_def Let_def)
qed

lemma select_emotion_Fin:
  assumes "select_emotion (map Fin ps) = Inr (em, conf)"
  shows "\<exists>i<length EMOTIONS. i < length ps \<and> em = EMOTIONS ! i \<and> conf = Fin (ps ! i) \<and>
            (\<forall>j<length ps. ps ! j \<le> ps ! i) \<and> (\<forall>j<i. ps ! j < ps ! i)"
proof -
  have ne: "ps \<noteq> []" using assms by (auto simp: select_emotion_def np_argmax_def)
  from np_argmax_Fin[OF ne] obtain r where r: "np_argmax (map Fin ps) = Inr r" "r < length ps"
    "\<forall>j<length ps. ps ! j \<le> ps ! r" "\<forall>j<r. ps ! j < ps ! r" by blast
  from assms r(1) have "r < length EMOTIONS" "em = EMOTIONS ! r" "conf = map Fin ps ! r"
    by (auto simp: select_emotion_def split: if_splits)
  with r show ?thesis by auto
qed

lemma select_emotion_total:
  assumes "length ps = length EMOTIONS"
  shows "\<exists>em conf. select_emotion (map Fin ps) = Inr (em, conf)"
proof -
  have ne: "ps \<noteq> []" using assms by (auto simp: EMOTIONS_def)
  from np_argmax_Fin[OF ne] obtain r where "np_argmax (map Fin ps) = Inr r" "r < length ps" by blast
  then show ?thesis using assms by (simp add: select_emotion_def)
qed

lemma select_first_max:
  assumes "length ps = length EMOTIONS"
  shows "\<exists>i<length EMOTIONS. select_emotion (map Fin ps) = Inr (EMOTIONS ! i, Fin (ps ! i)) \<and>
            (\<forall>j<length ps. ps ! j \<le> ps ! i) \<and> (\<forall>j<i. ps ! j < ps ! i)"
proof -
  from select_emotion_total[OF assms] obtain em conf
    where s: "select_emotion (map Fin ps) = Inr (em, conf)" by blast
  from select_emotion_Fin[OF s] show ?thesis using s by auto
qed

text \<open>
  Claim C8.  For every probability row with one finite entry per label, the selected
  label is \<open>EMOTIONS ! i\<close> where \<open>i\<close> is an index of a maximal entry and every earlier
  entry is strictly smaller: the arg-max, and among tied maxima the label that comes
  first in the label list.  \<open>classify_emotion\<close>, \<open>detect_emotion_from_audio\<close> and
  \<open>detect_multimodal_emotion\<close> all select through \<open>select_emotion\<close>.
\<close>

theorem select_emotion_first_maximum:
  assumes "length ps = length EMOTIONS"
  shows "\<exists>i<length EMOTIONS. select_emotion (map Fin ps) = Inr (EMOTIONS ! i, Fin (ps ! i)) \<and>
            (\<forall>j<length ps. ps ! j \<le> ps ! i) \<and> (\<forall>j<i. ps ! j < ps ! i)"
  using assms by (rule select_first_max)

text \<open>A row in which \<open>angry\<close> and \<open>disgust\<close> tie for the maximum: \<open>angry\<close> is selected.\<close>

theorem select_emotion_first_maximum_witness:
  "length [3 / 10, 3 / 10, 1 / 10, 1 / 10, 1 / 10, 1 / 20, 1 / 20 :: real] = length EMOTIONS \<and>
   select_emotion (map Fin [3 / 10, 3 / 10, 1 / 10, 1 / 10, 1 / 10, 1 / 20, 1 / 20])
     = Inr (''angry'', Fin (3 / 10))"
  using select_emotion_first_maximum[of "[3 / 10, 3 / 10, 1 / 10, 1 / 10, 1 / 10, 1 / 20, 1 / 20]"]
  by (simp add: select_emotion_def np_argmax_def EMOTIONS_def)

lemma finite_list_Fin:
  assumes "list_all np_isfinite zs"
  shows "\<exists>xs. zs = map Fin xs"
  using assms
proof (induction zs)
  case Nil
  then show ?case by simp
next
  case (Cons z zs)
  then obtain xs where "zs = map Fin xs" by auto
  moreover from Cons.prems obtain x where "z = Fin x" by (cases z) auto
  ultimately have "z # zs = map Fin (x # xs)" by simp
  then show ?case by (rule exI)
qed

lemma softmax_all_or_nothing:
  "(\<exists>ps. softmax zs = map Fin ps) \<or> softmax zs = map (\<lambda>z. NaN) zs"
proof (cases "list_ex (\<lambda>z. z = NaN \<or> z = PInf) zs \<or> list_all (\<lambda>z. z = NInf) zs")
  case True
  then show ?thesis by (simp add: softmax_def)
next
  case False
  then have "softmax zs = map Fin (map (\<lambda>z. np_exp z / sum_list (map np_exp zs)) zs)"
    by (simp add: softmax_def)
  then show ?thesis by blast
qed

lemma length_softmax: "length (softmax zs) = length zs"
  by (simp add: softmax_def)

lemma EMOTIONS_length: "length EMOTIONS = 7"
  by (simp add: EMOTIONS_def)

lemma EMOTIONS_distinct: "distinct EMOTIONS"
  by (simp add: EMOTIONS_def)

lemma upt_7: "[0..<7] = [0, 1, 2, 3, 4, 5, 6]"
  by (simp add: upt_rec)

lemma map_of_emotion_probs:
  assumes "i < length EMOTIONS"
  shows "map_of (map (\<lambda>i. (EMOTIONS ! i, p i)) [0..<length EMOTIONS]) (EMOTIONS ! i) = Some (p i)"
proof -
  have "map_of (zip EMOTIONS (map p [0..<length EMOTIONS])) (EMOTIONS ! i)
          = Some (map p [0..<length EMOTIONS] ! i)"
    by (rule map_of_zip_nth) (use assms EMOTIONS_distinct in auto)
  moreover have "zip EMOTIONS (map p [0..<length EMOTIONS])
      = map (\<lambda>i. (EMOTIONS ! i, p i)) [0..<length EMOTIONS]"
    by (rule nth_equalityI) auto
  ultimately show ?thesis using assms by simp
qed

lemma emotion_probs_Inr:
  assumes "emotion_probs probs = Inr d"
  shows "length EMOTIONS \<le> length probs"
    and "d = map (\<lambda>i. (EMOTIONS ! i, probs ! i)) [0..<length EMOTIONS]"
  using assms by (auto simp: emotion_probs_def split: if_splits)

lemma verdict_consistent:
  assumes sm: "probs = softmax zs"
    and sel: "select_emotion probs = Inr (em, conf)"
    and ep: "emotion_probs probs = Inr d"
    and fin: "list_all (\<lambda>(l, p). np_isfinite p) d"
  shows "map_of d em = Some conf \<and> list_all (\<lambda>(l, p). np_le p conf) d"
proof -
  note d = emotion_probs_Inr[OF ep]
  have len: "0 < length probs" using d(1) unfolding EMOTIONS_length by linarith
  have "np_isfinite (probs ! 0)"
    using fin d(2) by (simp add: EMOTIONS_length upt_7)
  then have "probs \<noteq> map (\<lambda>z. NaN) zs"
    using len sm by (auto simp: length_softmax)
  with softmax_all_or_nothing[of zs] sm obtain ps where ps: "probs = map Fin ps" by auto
  from select_emotion_Fin[OF sel[unfolded ps]] obtain i where
    i: "i < length EMOTIONS" "i < length ps" "em = EMOTIONS ! i" "conf = Fin (ps ! i)"
       "\<forall>j<length ps. ps ! j \<le> ps ! i" by blast
  have "map_of d em = Some conf"
    using map_of_emotion_probs[OF i(1), of "\<lambda>i. probs ! i"] i ps d(2) by simp
  moreover have "list_all (\<lambda>(l, p). np_le p conf) d"
    using i d ps by (auto simp: list_all_iff)
  ultimately show ?thesis by simp
qed

text \<open>
  For the results of the visual classifier path (\<open>classify_emotion\<close>) and of the audio
  classifier path (\<open>detect_emotion_from_audio\<close>) whose returned distribution has finite
  entries, the returned confidence is the probability that the returned distribution
  assigns to the returned emotion, and no entry of the distribution exceeds it.
\<close>

lemma finite_verdict_confidence_is_maximum:
  "(classify_emotion model x = Inr r \<and> list_all (\<lambda>(l, p). np_isfinite p) (cls_probabilities r)
      \<longrightarrow> map_of (cls_probabilities r) (cls_emotion r) = Some (cls_confidence r) \<and>
          list_all (\<lambda>(l, p). np_le p (cls_confidence r)) (cls_probabilities r)) \<and>
   (detect_emotion_from_audio lib audio_model audio_data = Inr v \<and>
    list_all (\<lambda>(l, p). np_isfinite p) (aud_probabilities v)
      \<longrightarrow> map_of (aud_probabilities v) (aud_emotion v) = Some (aud_confidence v) \<and>
          list_all (\<lambda>(l, p). np_le p (aud_confidence v)) (aud_probabilities v))"
proof (intro conjI impI)
  assume a: "classify_emotion model x = Inr r \<and> list_all (\<lambda>(l, p). np_isfinite p) (cls_probabilities r)"
  then obtain m probs em conf d where
    "model = Some m" "forward m x = Inr probs" "select_emotion probs = Inr (em, conf)"
    "emotion_probs probs = Inr d"
    "r = \<lparr>cls_emotion = em, cls_confidence = conf, cls_probabilities = d\<rparr>"
    by (auto simp: classify_emotion_def split: option.splits sum.splits prod.splits)
  moreover from this obtain zs where "probs = softmax zs"
    by (auto simp: forward_def split: option.splits)
  ultimately have "map_of d em = Some conf \<and> list_all (\<lambda>(l, p). np_le p conf) d"
    using a by (intro verdict_consistent) auto
  with \<open>r = _\<close> show "map_of (cls_probabilities r) (cls_emotion r) = Some (cls_confidence r)"
    and "list_all (\<lambda>(l, p). np_le p (cls_confidence r)) (cls_probabilities r)" by auto
next
  assume a: "detect_emotion_from_audio lib audio_model audio_data = Inr v \<and>
    list_all (\<lambda>(l, p). np_isfinite p) (aud_probabilities v)"
  then obtain m sp probs em conf d f where
    "audio_model = Some m" "forward m sp = Inr probs" "select_emotion probs = Inr (em, conf)"
    "emotion_probs probs = Inr d"
    "v = \<lparr>aud_emotion = em, aud_confidence = conf, aud_audio_features = f, aud_probabilities = d\<rparr>"
    by (auto simp: detect_emotion_from_audio_def split: option.splits sum.splits prod.splits)
  moreover from this obtain zs where "probs = softmax zs"
    by (auto simp: forward_def split: option.splits)
  ultimately have "map_of d em = Some conf \<and> list_all (\<lambda>(l, p). np_le p conf) d"
    using a by (intro verdict_consistent) auto
  with \<open>v = _\<close> show "map_of (aud_probabilities v) (aud_emotion v) = Some (aud_confidence v)"
    and "list_all (\<lambda>(l, p). np_le p (aud_confidence v)) (aud_probabilities v)" by auto
qed

section \<open>Evaluation on the sample collaborators\<close>

lemma sample_forward:
  "forward sample_cnn x = Inr (map Fin [1 / 10, 1 / 10, 1 / 10, 2 / 5, 1 / 10, 1 / 10, 1 / 10])"
  by (simp add: forward_def sample_cnn_def EMOTIONS_length upt_7 softmax_def)

lemma sample_classify:
  "classify_emotion (Some sample_cnn) x =
     Inr \<lparr> cls_emotion = ''happy'', cls_confidence = Fin (2 / 5),
           cls_probabilities =
             [(''angry'', Fin (1 / 10)), (''disgust'', Fin (1 / 10)), (''fear'', Fin (1 / 10)),
              (''happy'', Fin (2 / 5)), (''neutral'', Fin (1 / 10)), (''sad'', Fin (1 / 10)),
              (''surprise'', Fin (1 / 10))] \<rparr>"
  by (simp add: classify_emotion_def sample_forward select_emotion_def np_argmax_def
        emotion_probs_def EMOTIONS_length upt_7)
     (simp add: EMOTIONS_def)

lemma frame_rms_click: "frame_rms [1] = [[sqrt (1 / 2048)]]"
proof -
  have t: "take 2048 (replicate 1024 (0::real) @ 1 # replicate 1024 0)
             = replicate 1024 0 @ 1 # replicate 1023 0"
    by simp
  have s: "sum_list (map (\<lambda>x. x\<^sup>2) (take 2048 (replicate 1024 (0::real) @ 1 # replicate 1024 0))) = 1"
    unfolding t by (simp add: sum_list_replicate)
  show ?thesis
    unfolding frame_rms_def Let_def
    by (simp only: length_append length_replicate list.size) (simp add: s del: take_append)
qed

lemma sample_features_click:
  "extract_audio_features sample_audio_lib [1] =
     Inr \<lparr> mfccs = replicate 13 (Fin 0), pitch = Fin 0, energy = Fin (sqrt (1 / 2048)),
           spectral_centroid = Fin 0, zero_crossing_rate = Fin 0, spectral_rolloff = Fin 0,
           chroma = replicate 12 (Fin 0) \<rparr>"
  by (simp add: extract_audio_features_def sample_audio_lib_def mean_row0_def np_mean_def
        mean_positive_def frame_rms_click)

lemma sample_decode_click: "decode_base64_audio sample_audio_lib ''click'' = Inr [1]"
  by (simp add: decode_base64_audio_def strip_data_url_def startswith_def sample_audio_lib_def)

lemma db_rel_max_Some: "concat S \<noteq> [] \<Longrightarrow> \<exists>L. db_rel_max S = Some L"
  by (simp add: db_rel_max_def)

lemma concat_replicate_nonempty:
  "0 < n \<Longrightarrow> r \<noteq> [] \<Longrightarrow> concat (replicate n r @ S) \<noteq> []"
  by (cases n) auto

lemma sample_spectrogram_exists: "\<exists>sp. create_spectrogram sample_audio_lib y = Inr sp"
proof -
  have "concat (replicate 64 (replicate (1 + length y div 512) (sum_list (map (\<lambda>x. x\<^sup>2) y)))
          @ replicate 64 (replicate (1 + length y div 512) 0)) \<noteq> []"
    by (rule concat_replicate_nonempty) auto
  from db_rel_max_Some[OF this] obtain L where
    "db_rel_max (replicate 64 (replicate (1 + length y div 512) (sum_list (map (\<lambda>x. x\<^sup>2) y)))
          @ replicate 64 (replicate (1 + length y div 512) 0)) = Some L" by blast
  then show ?thesis
    by (simp add: create_spectrogram_def sample_audio_lib_def)
qed

lemma sample_select:
  "select_emotion (map Fin [1 / 10, 1 / 10, 1 / 10, 2 / 5, 1 / 10, 1 / 10, 1 / 10])
     = Inr (''happy'', Fin (2 / 5))"
  by (simp add: select_emotion_def np_argmax_def EMOTIONS_def)

lemma sample_probs:
  "emotion_probs (map Fin [1 / 10, 1 / 10, 1 / 10, 2 / 5, 1 / 10, 1 / 10, 1 / 10])
     = Inr [(''angry'', Fin (1 / 10)), (''disgust'', Fin (1 / 10)), (''fear'', Fin (1 / 10)),
              (''happy'', Fin (2 / 5)), (''neutral'', Fin (1 / 10)), (''sad'', Fin (1 / 10)),
              (''surprise'', Fin (1 / 10))]"
  by (simp add: emotion_probs_def EMOTIONS_length upt_7) (simp add: EMOTIONS_def)

lemma sample_audio_click:
  "detect_emotion_from_audio sample_audio_lib (Some sample_cnn) ''click'' =
     Inr \<lparr> aud_emotion = ''happy'', aud_confidence = Fin (2 / 5),
           aud_audio_features =
             \<lparr> mfccs = replicate 13 (Fin 0), pitch = Fin 0, energy = Fin (sqrt (1 / 2048)),
               spectral_centroid = Fin 0, zero_crossing_rate = Fin 0, spectral_rolloff = Fin 0,
               chroma = replicate 12 (Fin 0) \<rparr>,
           aud_probabilities =
             [(''angry'', Fin (1 / 10)), (''disgust'', Fin (1 / 10)), (''fear'', Fin (1 / 10)),
              (''happy'', Fin (2 / 5)), (''neutral'', Fin (1 / 10)), (''sad'', Fin (1 / 10)),
              (''surprise'', Fin (1 / 10))] \<rparr>"
proof -
  obtain sp where sp: "create_spectrogram sample_audio_lib [1] = Inr sp"
    using sample_spectrogram_exists by blast
  show ?thesis
    unfolding detect_emotion_from_audio_def
    by (simp only: sample_decode_click sample_features_click sp sample_forward sample_select
          sample_probs sum.case option.case prod.case)
qed

section \<open>The classifier's distribution\<close>

lemma forward_finite:
  assumes h: "hidden m x = Some h"
    and fin: "list_all np_isfinite (map (\<lambda>i. logit m i h) [0..<num_classes m])"
    and n: "0 < num_classes m"
  shows "\<exists>ps. forward m x = Inr (map Fin ps) \<and> length ps = num_classes m \<and>
              list_all (\<lambda>p. 0 \<le> p) ps \<and> sum_list ps = 1"
proof -
  from finite_list_Fin[OF fin] obtain xs
    where xs: "map (\<lambda>i. logit m i h) [0..<num_classes m] = map Fin xs" by blast
  then have "length xs = num_classes m"
    by (metis length_map length_upt minus_nat.diff_0)
  with n have ne: "xs \<noteq> []" by auto
  let ?ps = "map (\<lambda>x. exp x / sum_list (map exp xs)) xs"
  have "0 \<le> sum_list (map exp xs)" by (rule sum_list_nonneg) auto
  then have nonneg: "list_all (\<lambda>p. 0 \<le> p) ?ps" by (simp add: list_all_iff)
  have "forward m x = Inr (map Fin ?ps)"
    using h xs softmax_Fin[OF ne] by (simp add: forward_def o_def)
  moreover have "sum_list ?ps = 1" by (rule sum_softmax_aux[OF ne])
  moreover have "length ?ps = num_classes m" using \<open>length xs = num_classes m\<close> by simp
  ultimately show ?thesis using nonneg by blast
qed

lemma emotion_probs_Fin:
  assumes "length ps = length EMOTIONS"
  shows "\<exists>d. emotion_probs (map Fin ps) = Inr d \<and> map fst d = EMOTIONS \<and> map snd d = map Fin ps"
proof -
  let ?d = "map (\<lambda>i. (EMOTIONS ! i, map Fin ps ! i)) [0..<length EMOTIONS]"
  have "emotion_probs (map Fin ps) = Inr ?d" using assms by (simp add: emotion_probs_def)
  moreover have "map fst ?d = EMOTIONS" by (simp add: o_def map_nth)
  moreover have "map snd ?d = map Fin ps"
    by (rule nth_equalityI) (use assms in auto)
  ultimately show ?thesis by blast
qed

text \<open>
  Claim C7.  For a classifier with one output unit per label and an input tensor that
  the network accepts with finite logits, the forward pass returns a row of finite
  values, and the classification built from it has exactly one entry for each of the
  seven labels, in label order, every value non-negative and the values summing to one
  (so within \<open>1e-6\<close> of one; rounding of the floating-point sum is not modelled).
\<close>

theorem classifier_distribution:
  assumes "num_classes m = length EMOTIONS"
    and "hidden m x = Some h"
    and "list_all np_isfinite (map (\<lambda>i. logit m i h) [0..<num_classes m])"
  shows "\<exists>ps r. forward m x = Inr (map Fin ps) \<and> classify_emotion (Some m) x = Inr r \<and>
           map fst (cls_probabilities r) = EMOTIONS \<and> distinct (map fst (cls_probabilities r)) \<and>
           map snd (cls_probabilities r) = map Fin ps \<and>
           list_all (\<lambda>p. 0 \<le> p) ps \<and> \<bar>sum_list ps - 1\<bar> \<le> 1 / 10 ^ 6"
proof -
  have "0 < num_classes m" using assms(1) by (simp add: EMOTIONS_length)
  from forward_finite[OF assms(2,3) this] obtain ps where
    ps: "forward m x = Inr (map Fin ps)" "length ps = num_classes m"
        "list_all (\<lambda>p. 0 \<le> p) ps" "sum_list ps = 1" by blast
  have len: "length ps = length EMOTIONS" using ps(2) assms(1) by simp
  from select_emotion_total[OF len] obtain em conf
    where sel: "select_emotion (map Fin ps) = Inr (em, conf)" by blast
  from emotion_probs_Fin[OF len] obtain d where
    d: "emotion_probs (map Fin ps) = Inr d" "map fst d = EMOTIONS" "map snd d = map Fin ps" by blast
  have "classify_emotion (Some m) x =
          Inr \<lparr>cls_emotion = em, cls_confidence = conf, cls_probabilities = d\<rparr>"
    by (simp add: classify_emotion_def ps(1) sel d(1))
  then show ?thesis using ps d EMOTIONS_distinct by auto
qed

text \<open>The sample model on an empty tensor.\<close>

theorem classifier_distribution_witness:
  "num_classes (sample_cnn :: (npfloat list list, unit) classifier) = length EMOTIONS \<and>
   hidden (sample_cnn :: (npfloat list list, unit) classifier) [] = Some () \<and>
   list_all np_isfinite (map (\<lambda>i. logit (sample_cnn :: (npfloat list list, unit) classifier) i ())
      [0..<num_classes (sample_cnn :: (npfloat list list, unit) classifier)]) \<and>
   forward (sample_cnn :: (npfloat list list, unit) classifier) []
     = Inr (map Fin [1 / 10, 1 / 10, 1 / 10, 2 / 5, 1 / 10, 1 / 10, 1 / 10]) \<and>
   (\<exists>ps r. classify_emotion (Some sample_cnn) [] = Inr r \<and>
      map fst (cls_probabilities r) = EMOTIONS \<and> map snd (cls_probabilities r) = map Fin ps \<and>
      list_all (\<lambda>p. 0 \<le> p) ps \<and> \<bar>sum_list ps - 1\<bar> \<le> 1 / 10 ^ 6)"
proof -
  have a: "num_classes (sample_cnn :: (npfloat list list, unit) classifier) = length EMOTIONS"
    by (simp add: sample_cnn_def)
  have b: "hidden (sample_cnn :: (npfloat list list, unit) classifier) [] = Some ()"
    by (simp add: sample_cnn_def)
  have c: "list_all np_isfinite (map (\<lambda>i. logit (sample_cnn :: (npfloat list list, unit) classifier) i ())
      [0..<num_classes (sample_cnn :: (npfloat list list, unit) classifier)])"
    by (simp add: sample_cnn_def list_all_iff)
  from classifier_distribution[OF a b c] a b c sample_forward[of "[]"]
  show ?thesis by blast
qed

section \<open>The orchestrator\<close>

lemma extract_no_face:
  assumes "face_mesh_process lib fm (bgr2rgb img) = (Inr faces, fm')"
    and "faces = None \<or> faces = Some []"
  shows "extract_facial_landmarks lib (Some fm) img = (None, Some fm')"
  using assms by (auto simp: extract_facial_landmarks_def)

text \<open>
  Claim C4.  For every non-empty image payload that decodes and in which the initialised
  face mesh reports zero faces (\<open>multi_face_landmarks\<close> is \<open>None\<close> or empty), with no audio
  input, \<open>detect_emotion\<close> does not raise and returns the fallback verdict: emotion
  \<open>neutral\<close>, confidence 0.5, source \<open>video\<close>, no landmarks.
\<close>

theorem detect_emotion_no_face_fallback:
  assumes "image_data \<noteq> []"
    and "decode_base64_image lib image_data = Inr img"
    and "face_mesh s = Some fm"
    and "fst (face_mesh_process lib fm (bgr2rgb img)) = Inr faces"
    and "faces = None \<or> faces = Some []"
  shows "fst (detect_emotion lib s (Some image_data) None session_id) =
           Inr \<lparr> emotion = ''neutral'', confidence = Fin (1 / 2), source = ''video'',
                 facial_landmarks = None, audio_features = None \<rparr>"
proof -
  obtain c cs where d: "image_data = c # cs" using assms(1) by (cases image_data) auto
  obtain fm' where "face_mesh_process lib fm (bgr2rgb img) = (Inr faces, fm')"
    using assms(4) by (cases "face_mesh_process lib fm (bgr2rgb img)") auto
  from extract_no_face[OF this assms(5)]
  have "extract_facial_landmarks lib (face_mesh s) img = (None, Some fm')"
    using assms(3) by simp
  then show ?thesis
    using assms(2) by (simp add: detect_emotion_def d)
qed

lemma sample_decode_wall: "decode_base64_image sample_vision_lib ''wall'' = Inr [[(128, 128, 128)]]"
  by (simp add: decode_base64_image_def strip_data_url_def startswith_def sample_vision_lib_def)

lemma wall_not_face: "bgr2rgb [[(128, 128, 128)]] \<noteq> bgr2rgb face_img"
  by (simp add: bgr2rgb_def face_img_def numeral_eq_Suc)

lemma sample_mesh_wall:
  "face_mesh_process sample_vision_lib fm (bgr2rgb [[(128, 128, 128)]]) = (Inr None, Suc fm)"
  using wall_not_face by (simp add: sample_vision_lib_def)

text \<open>The sample image \<open>wall\<close>, in which the sample mesh finds no face.\<close>

theorem detect_emotion_no_face_fallback_witness:
  "''wall'' \<noteq> [] \<and>
   decode_base64_image sample_vision_lib ''wall'' = Inr [[(128, 128, 128)]] \<and>
   face_mesh sample_service = Some 0 \<and>
   fst (face_mesh_process sample_vision_lib 0 (bgr2rgb [[(128, 128, 128)]])) = Inr None \<and>
   fst (detect_emotion sample_vision_lib sample_service (Some ''wall'') None ''s1'') =
     Inr \<lparr> emotion = ''neutral'', confidence = Fin (1 / 2), source = ''video'',
           facial_landmarks = None, audio_features = None \<rparr>"
proof -
  have a: "''wall'' \<noteq> []" by simp
  have c: "face_mesh sample_service = Some 0" by (simp add: sample_service_def)
  have d: "fst (face_mesh_process sample_vision_lib 0 (bgr2rgb [[(128, 128, 128)]])) = Inr None"
    by (simp add: sample_mesh_wall)
  from detect_emotion_no_face_fallback[OF a sample_decode_wall c d, of "''s1''"]
       a sample_decode_wall c d
  show ?thesis by simp
qed
































text \<open>
  A request with audio and no image on the sample collaborators: \<open>detect_emotion\<close>
  raises, it returns no verdict with source \<open>audio\<close>.
\<close>

theorem detect_emotion_audio_only_counterexample:
  "fst (detect_emotion sample_vision_lib sample_service None (Some ''click'') ''s1'') =
     Inl (ValueError ''Image data is required for emotion detection'') \<and>
   \<not> (\<exists>v. fst (detect_emotion sample_vision_lib sample_service None (Some ''click'') ''s1'') = Inr v
          \<and> source v = ''audio'')"
  by (simp add: detect_emotion_def)

text \<open>
  Claim C1, as amended.  For every request with no image input (absent or the empty
  string), whatever the audio input, \<open>detect_emotion\<close> raises
  \<open>ValueError('Image data is required for emotion detection')\<close> and changes no state; it
  runs no part of the audio pipeline.
\<close>

theorem detect_emotion_requires_image:
  "detect_emotion lib s None audio_data session_id =
     (Inl (ValueError ''Image data is required for emotion detection''), s) \<and>
   detect_emotion lib s (Some []) audio_data session_id =
     (Inl (ValueError ''Image data is required for emotion detection''), s)"
  by (simp add: detect_emotion_def)

lemma sample_extract_wall:
  "extract_facial_landmarks sample_vision_lib (Some fm) [[(128, 128, 128)]] = (None, Some (Suc fm))"
  by (simp add: extract_facial_landmarks_def sample_mesh_wall)

text \<open>
  Claim C2, at a failing input.  On the sample image \<open>wall\<close> (no face) with the audio
  payload \<open>click\<close>, \<open>detect_multimodal_emotion\<close> returns the fixed response
  \<open>neutral\<close> / 0.5 labelled \<open>audio\<close>, while the audio classifier run on the same payload
  answers \<open>happy\<close> with confidence 0.4.
\<close>

theorem multimodal_no_face_ignores_audio:
  "fst (detect_multimodal_emotion sample_vision_lib sample_service ''wall'' ''click'' ''s1'') =
     Inr \<lparr> emotion = ''neutral'', confidence = Fin (1 / 2), source = ''audio'',
           facial_landmarks = None, audio_features = None \<rparr> \<and>
   detect_emotion_from_audio sample_audio_lib (Some sample_cnn) ''click'' =
     Inr \<lparr> aud_emotion = ''happy'', aud_confidence = Fin (2 / 5),
           aud_audio_features =
             \<lparr> mfccs = replicate 13 (Fin 0), pitch = Fin 0, energy = Fin (sqrt (1 / 2048)),
               spectral_centroid = Fin 0, zero_crossing_rate = Fin 0, spectral_rolloff = Fin 0,
               chroma = replicate 12 (Fin 0) \<rparr>,
           aud_probabilities =
             [(''angry'', Fin (1 / 10)), (''disgust'', Fin (1 / 10)), (''fear'', Fin (1 / 10)),
              (''happy'', Fin (2 / 5)), (''neutral'', Fin (1 / 10)), (''sad'', Fin (1 / 10)),
              (''surprise'', Fin (1 / 10))] \<rparr>"
proof -
  have m: "face_mesh sample_service = Some 0" by (simp add: sample_service_def)
  have "fst (detect_multimodal_emotion sample_vision_lib sample_service ''wall'' ''click'' ''s1'') =
     Inr \<lparr> emotion = ''neutral'', confidence = Fin (1 / 2), source = ''audio'',
           facial_landmarks = None, audio_features = None \<rparr>"
    by (simp add: detect_multimodal_emotion_def sample_decode_wall m sample_extract_wall)
  then show ?thesis using sample_audio_click by simp
qed

section \<open>The spectrogram builder and the feature extractor\<close>

lemma all_equal_replicate:
  assumes "\<forall>x\<in>set xs. x = c"
  shows "xs = replicate (length xs) c"
  using assms by (induction xs) auto

lemma np_std_constant: "np_std (replicate n c) = 0"
proof (cases n)
  case 0
  then show ?thesis by (simp add: np_std_def)
next
  case (Suc k)
  from Suc have "n \<noteq> 0" by simp
  then have "sum_list (replicate n c) / real n = c"
    by (simp add: sum_list_replicate)
  then show ?thesis
    by (simp add: np_std_def Let_def sum_list_replicate)
qed

text \<open>
  A log-mel array all of whose entries are equal has standard deviation zero, and the
  unguarded division turns every entry into NaN.
\<close>

lemma normalize_constant:
  assumes "\<forall>r\<in>set S. \<forall>x\<in>set r. x = c"
  shows "normalize_log_mel S = map (map (\<lambda>x. NaN)) S"
proof -
  let ?xs = "concat S"
  have "\<forall>x\<in>set ?xs. x = c" using assms by auto
  then have xs: "?xs = replicate (length ?xs) c" by (rule all_equal_replicate)
  have sd: "np_std ?xs = 0" by (subst xs) (rule np_std_constant)
  have cell: "np_div (x - sum_list ?xs / real (length ?xs)) 0 = NaN"
    if "r \<in> set S" "x \<in> set r" for r x
  proof -
    from that have "x = c" using assms by auto
    from that have "x \<in> set ?xs" by auto
    then have "0 < length ?xs" by (cases ?xs) auto
    then have "length ?xs \<noteq> 0" by simp
    then have "sum_list (replicate (length ?xs) c) / real (length ?xs) = c"
      by (simp only: sum_list_replicate) simp
    then have "sum_list ?xs / real (length ?xs) = c" using xs by simp
    then show ?thesis using \<open>x = c\<close> by (simp add: np_div_def)
  qed
  show ?thesis
    unfolding normalize_log_mel_def Let_def sd
    by (intro map_cong refl) (use cell in blast)
qed

lemma concat_replicate_replicate:
  "concat (replicate n (replicate k c)) = replicate (n * k) c"
  by (induction n) (simp_all add: replicate_add)

lemma db_rel_max_constant:
  assumes "0 < n" "0 < k"
  shows "db_rel_max (replicate n (replicate k c)) = Some (replicate n (replicate k 0))"
proof -
  have nk: "0 < n * k" using assms by simp
  then have s: "set (replicate (n * k) x) = {x}" for x :: real by auto
  have ne: "replicate (n * k) c \<noteq> []" using nk by auto
  show ?thesis
    using ne nk
    by (simp add: db_rel_max_def Let_def concat_replicate_replicate)
qed

lemma length_normalize: "map length (normalize_log_mel S) = map length S"
  by (simp add: normalize_log_mel_def Let_def)

lemma shape1_map_length: "map length A = map length B \<Longrightarrow> shape1 A = shape1 B"
  by (cases A; cases B) (auto simp: shape1_def)

lemma rows_map_length:
  assumes "map length A = map length B" "list_all (\<lambda>r. length r = n) B"
  shows "list_all (\<lambda>r. length r = n) A"
proof -
  have "list_all (\<lambda>l. l = n) (map length B)" using assms(2) by (simp add: list_all_iff)
  then have "list_all (\<lambda>l. l = n) (map length A)" using assms(1) by simp
  then show ?thesis by (simp add: list_all_iff)
qed

lemma fix_length_rows:
  assumes "list_all (\<lambda>r. length r = shape1 S) S"
  shows "list_all (\<lambda>r. length r = 128) (fix_length S)"
  using assms by (auto simp: fix_length_def list_all_iff)

text \<open>
  Claim C6.  For every sample sequence on which the two library calls succeed with a
  rectangular log-mel array, whatever the number of its columns, the spectrogram builder
  returns a tensor with the same rows, each of exactly 128 frames: the first 128 columns
  of the normalised array when it has more, and the normalised array padded with zeros
  on the right when it has fewer.
\<close>

theorem create_spectrogram_fixed_frames:
  assumes "melspectrogram lib audio = Some mel"
    and "power_to_db lib mel = Some S"
    and "list_all (\<lambda>r. length r = shape1 S) S"
  shows "\<exists>t. create_spectrogram lib audio = Inr t \<and> length t = length S \<and>
             list_all (\<lambda>r. length r = 128) t \<and>
             t = (if 128 < shape1 S then map (take 128) (normalize_log_mel S)
                  else map (\<lambda>r. r @ replicate (128 - shape1 S) (Fin 0)) (normalize_log_mel S))"
proof -
  have s1: "shape1 (normalize_log_mel S) = shape1 S"
    by (rule shape1_map_length) (rule length_normalize)
  have "list_all (\<lambda>r. length r = shape1 S) (normalize_log_mel S)"
    by (rule rows_map_length[OF length_normalize assms(3)])
  then have rows: "list_all (\<lambda>r. length r = 128) (fix_length (normalize_log_mel S))"
    using fix_length_rows[of "normalize_log_mel S"] s1 by simp
  have len: "length (fix_length (normalize_log_mel S)) = length S"
    using arg_cong[OF length_normalize[of S], of length] by (simp add: fix_length_def)
  have "create_spectrogram lib audio = Inr (fix_length (normalize_log_mel S))"
    using assms(1,2) by (simp add: create_spectrogram_def)
  then show ?thesis using rows len s1 by (simp add: fix_length_def)
qed

lemma db_rel_max_lengths:
  assumes "db_rel_max M = Some S"
  shows "map length S = map length M"
  using assms by (auto simp: db_rel_max_def Let_def split: if_splits)

lemma sample_mel:
  "melspectrogram sample_audio_lib y =
     Some (replicate 64 (replicate (1 + length y div 512) (sum_list (map (\<lambda>x. x\<^sup>2) y)))
           @ replicate 64 (replicate (1 + length y div 512) 0))"
  by (simp add: sample_audio_lib_def)

lemma sample_power_to_db: "power_to_db sample_audio_lib = db_rel_max"
  by (simp add: sample_audio_lib_def)

lemma shape1_replicate_append: "0 < n \<Longrightarrow> shape1 (replicate n r @ X) = length r"
  by (cases n) (simp_all add: shape1_def)

lemma rows_two_blocks:
  "list_all (\<lambda>r. length r = k) (replicate n (replicate k a) @ replicate m (replicate k b))"
  by (auto simp: list_all_iff)

lemma sample_log_mel:
  "\<exists>S. power_to_db sample_audio_lib
          (replicate 64 (replicate (1 + length y div 512) (sum_list (map (\<lambda>x. x\<^sup>2) y)))
           @ replicate 64 (replicate (1 + length y div 512) 0)) = Some S \<and>
       length S = 128 \<and> list_all (\<lambda>r. length r = shape1 S) S"
proof -
  define k where "k = 1 + length y div 512"
  define p where "p = sum_list (map (\<lambda>x. x\<^sup>2) y)"
  define M where "M = replicate 64 (replicate k p) @ replicate 64 (replicate k 0)"
  have "0 < k" by (simp add: k_def)
  then have "replicate k p \<noteq> []" by auto
  then have "concat M \<noteq> []" unfolding M_def by (intro concat_replicate_nonempty) simp_all
  from db_rel_max_Some[OF this] obtain S where S: "db_rel_max M = Some S" by blast
  note l = db_rel_max_lengths[OF S]
  have "length M = 128" unfolding M_def by simp
  then have len: "length S = 128" using arg_cong[OF l, of length] by simp
  have "list_all (\<lambda>r. length r = k) M" unfolding M_def by (rule rows_two_blocks)
  then have rows: "list_all (\<lambda>r. length r = k) S"
    by (rule rows_map_length[OF l])
  have "shape1 M = k" unfolding M_def by (subst shape1_replicate_append) simp_all
  then have "shape1 S = k" using shape1_map_length[OF l] by simp
  with rows have rect: "list_all (\<lambda>r. length r = shape1 S) S" by simp
  have "power_to_db sample_audio_lib M = Some S" using S by (simp only: sample_power_to_db)
  with len rect have "power_to_db sample_audio_lib M = Some S \<and> length S = 128 \<and>
      list_all (\<lambda>r. length r = shape1 S) S" by (intro conjI)
  then show ?thesis unfolding M_def k_def p_def by (rule exI)
qed

text \<open>
  Half a second and five seconds of a constant signal on the sample library (22 and 216
  columns): both tensors are 128 by 128.
\<close>

theorem create_spectrogram_fixed_frames_witness:
  "(\<exists>t. create_spectrogram sample_audio_lib (replicate 11025 (1 / 2)) = Inr t \<and> length t = 128 \<and>
        list_all (\<lambda>r. length r = 128) t) \<and>
   (\<exists>t. create_spectrogram sample_audio_lib (replicate 110250 (1 / 2)) = Inr t \<and> length t = 128 \<and>
        list_all (\<lambda>r. length r = 128) t)"
proof -
  have "\<exists>t. create_spectrogram sample_audio_lib y = Inr t \<and> length t = 128 \<and>
        list_all (\<lambda>r. length r = 128) t" for y
  proof -
    from sample_log_mel[of y] obtain S where
      S: "power_to_db sample_audio_lib
          (replicate 64 (replicate (1 + length y div 512) (sum_list (map (\<lambda>x. x\<^sup>2) y)))
           @ replicate 64 (replicate (1 + length y div 512) 0)) = Some S"
         "length S = 128" "list_all (\<lambda>r. length r = shape1 S) S" by blast
    from create_spectrogram_fixed_frames[OF sample_mel S(1) S(3)] S(2)
    show ?thesis by auto
  qed
  then show ?thesis by blast
qed

lemma sample_mel_silence:
  "melspectrogram sample_audio_lib (replicate 11025 0) = Some (replicate 128 (replicate 22 0))"
proof -
  have "sum_list (map (\<lambda>x. x\<^sup>2) (replicate 11025 (0::real))) = 0"
    by (simp add: sum_list_replicate)
  moreover have "1 + length (replicate 11025 (0::real)) div 512 = 22" by simp
  moreover have "replicate 64 r @ replicate 64 r = replicate 128 r" for r :: "real list"
    by (simp add: replicate_add[symmetric])
  ultimately show ?thesis by (simp only: sample_mel)
qed

lemma fix_length_short:
  assumes "k \<le> 128"
  shows "fix_length (replicate n (replicate k v)) = replicate n (replicate k v @ replicate (128 - k) (Fin 0))"
proof (cases n)
  case 0
  then show ?thesis by (simp add: fix_length_def)
next
  case (Suc m)
  then have "shape1 (replicate n (replicate k v)) = k" by (simp add: shape1_def)
  then show ?thesis using assms by (simp add: fix_length_def)
qed

text \<open>
  Claim C3, at a failing input.  Half a second of silence (11025 zero samples) has an
  all-zero mel spectrogram, hence an all-zero decibel array; the builder divides by its
  standard deviation, which is zero, with no epsilon: it does not raise, and the first 22
  columns of every row of the tensor are NaN.
\<close>

theorem silent_clip_spectrogram_not_finite:
  "create_spectrogram sample_audio_lib (replicate 11025 0) =
     Inr (replicate 128 (replicate 22 NaN @ replicate 106 (Fin 0))) \<and>
   \<not> list_all (list_all np_isfinite) (replicate 128 (replicate 22 NaN @ replicate 106 (Fin 0)))"
proof -
  have db: "power_to_db sample_audio_lib (replicate 128 (replicate 22 0))
              = Some (replicate 128 (replicate 22 0))"
    unfolding sample_power_to_db by (rule db_rel_max_constant) simp_all
  have "normalize_log_mel (replicate 128 (replicate 22 0)) = map (map (\<lambda>x. NaN)) (replicate 128 (replicate 22 (0::real)))"
    by (rule normalize_constant) auto
  then have nz: "normalize_log_mel (replicate 128 (replicate 22 0)) = replicate 128 (replicate 22 NaN)"
    by simp
  have fl: "fix_length (replicate 128 (replicate 22 NaN))
              = replicate 128 (replicate 22 NaN @ replicate (128 - 22) (Fin 0))"
    by (rule fix_length_short) simp
  have "create_spectrogram sample_audio_lib (replicate 11025 0) =
     Inr (replicate 128 (replicate 22 NaN @ replicate 106 (Fin 0)))"
    unfolding create_spectrogram_def
    by (simp only: sample_mel_silence db nz fl option.case) simp
  moreover have "\<not> list_all (list_all np_isfinite) (replicate 128 (replicate 22 NaN @ replicate 106 (Fin 0)))"
    by (simp add: list_all_iff)
  ultimately show ?thesis by (rule conjI)
qed

lemma np_mean_zero:
  assumes "np_mean r = Fin 0" "list_all (\<lambda>x. 0 \<le> x) r"
  shows "r \<noteq> [] \<and> list_all (\<lambda>x. x = 0) r"
proof -
  from assms(1) have ne: "r \<noteq> []" by (auto simp: np_mean_def split: if_splits)
  with assms(1) have "sum_list r / real (length r) = 0" by (simp add: np_mean_def)
  with ne have "sum_list r = 0" by simp
  moreover have "\<And>x. x \<in> set r \<Longrightarrow> 0 \<le> x" using assms(2) by (simp add: list_all_iff)
  ultimately have "\<forall>x\<in>set r. x = 0" by (simp add: sum_list_nonneg_eq_0_iff)
  with ne show ?thesis by (simp add: list_all_iff)
qed

text \<open>
  Claim C5, as amended.  For every sample sequence, shorter than an analysis frame or
  not, on which the seven library descriptor calls succeed (the descriptors read by
  their first row having one), the extractor returns without failing the vector of the
  descriptors' frame means, the pitch being the mean of the positive tracked pitches or
  0.0 when there are none.  Nothing is zero-filled for a short clip: with non-negative
  RMS frames, a zero-filled result means that every RMS frame of the clip is zero.
\<close>

theorem extract_audio_features_means:
  assumes "mfcc lib audio = Some mf"
    and "piptrack lib audio = Some pitches"
    and "rms lib audio = Some (r # rs)"
    and "centroid lib audio = Some (c # cs)"
    and "zcr lib audio = Some (z # zs)"
    and "rolloff lib audio = Some (ro # ros)"
    and "chroma_stft lib audio = Some ch"
    and "list_all (\<lambda>x. 0 \<le> x) r"
  shows "\<exists>f. extract_audio_features lib audio = Inr f \<and>
           f = \<lparr> mfccs = map np_mean mf, pitch = mean_positive pitches, energy = np_mean r,
                 spectral_centroid = np_mean c, zero_crossing_rate = np_mean z,
                 spectral_rolloff = np_mean ro, chroma = map np_mean ch \<rparr> \<and>
           (zero_filled f \<longrightarrow> r \<noteq> [] \<and> list_all (\<lambda>x. x = 0) r)"
proof -
  let ?f = "\<lparr> mfccs = map np_mean mf, pitch = mean_positive pitches, energy = np_mean r,
                 spectral_centroid = np_mean c, zero_crossing_rate = np_mean z,
                 spectral_rolloff = np_mean ro, chroma = map np_mean ch \<rparr>"
  have "extract_audio_features lib audio = Inr ?f"
    using assms(1-7) by (simp add: extract_audio_features_def mean_row0_def)
  moreover have "zero_filled ?f \<longrightarrow> r \<noteq> [] \<and> list_all (\<lambda>x. x = 0) r"
    using np_mean_zero[OF _ assms(8)] by (simp add: zero_filled_def)
  ultimately show ?thesis by blast
qed

lemma sample_rms_click: "rms sample_audio_lib [1] = Some ([sqrt (1 / 2048)] # [])"
  by (simp add: sample_audio_lib_def frame_rms_click)

text \<open>The one-sample clip \<open>click\<close> on the sample library.\<close>

theorem extract_audio_features_means_witness:
  "rms sample_audio_lib [1] = Some ([sqrt (1 / 2048)] # []) \<and>
   list_all (\<lambda>x. 0 \<le> x) [sqrt (1 / 2048)] \<and>
   extract_audio_features sample_audio_lib [1] =
     Inr \<lparr> mfccs = replicate 13 (Fin 0), pitch = Fin 0, energy = Fin (sqrt (1 / 2048)),
           spectral_centroid = Fin 0, zero_crossing_rate = Fin 0, spectral_rolloff = Fin 0,
           chroma = replicate 12 (Fin 0) \<rparr>"
proof -
  have a: "mfcc sample_audio_lib [1] = Some (replicate 13 [0])"
    and b: "piptrack sample_audio_lib [1] = Some [[0]]"
    and d: "centroid sample_audio_lib [1] = Some ([0] # [])"
    and e: "zcr sample_audio_lib [1] = Some ([0] # [])"
    and f: "rolloff sample_audio_lib [1] = Some ([0] # [])"
    and g: "chroma_stft sample_audio_lib [1] = Some (replicate 12 [0])"
    by (simp_all add: sample_audio_lib_def)
  have h: "list_all (\<lambda>x. 0 \<le> x) [sqrt (1 / 2048)]" by simp
  from extract_audio_features_means[OF a b sample_rms_click d e f g h] sample_rms_click h
  show ?thesis by (simp add: np_mean_def mean_positive_def)
qed

text \<open>
  The one-sample clip is shorter than an analysis frame of 2048 samples, and its energy
  is the RMS of its single zero-padded frame, which is not zero.
\<close>

theorem short_clip_not_zero_filled_counterexample:
  "length [1::real] < 2048 \<and>
   extract_audio_features sample_audio_lib [1] =
     Inr \<lparr> mfccs = replicate 13 (Fin 0), pitch = Fin 0, energy = Fin (sqrt (1 / 2048)),
           spectral_centroid = Fin 0, zero_crossing_rate = Fin 0, spectral_rolloff = Fin 0,
           chroma = replicate 12 (Fin 0) \<rparr> \<and>
   \<not> zero_filled \<lparr> mfccs = replicate 13 (Fin 0), pitch = Fin 0, energy = Fin (sqrt (1 / 2048)),
           spectral_centroid = Fin 0, zero_crossing_rate = Fin 0, spectral_rolloff = Fin 0,
           chroma = replicate 12 (Fin 0) \<rparr>"
  by (simp add: sample_features_click zero_filled_def)

section \<open>The audio verdict on a silent clip\<close>

lemma sample_decode_silence:
  "decode_base64_audio sample_audio_lib ''silence'' = Inr (replicate 11025 0)"
  by (simp add: decode_base64_audio_def strip_data_url_def startswith_def sample_audio_lib_def)

lemma sample_features_exist: "\<exists>f. extract_audio_features sample_audio_lib y = Inr f"
proof -
  obtain r where r: "frame_rms y = [r]" by (simp add: frame_rms_def Let_def)
  show ?thesis
    by (simp add: extract_audio_features_def sample_audio_lib_def mean_row0_def r)
qed

lemma sample_spectrogram_silence:
  "create_spectrogram sample_audio_lib (replicate 11025 0) =
     Inr (replicate 128 (replicate 22 NaN @ replicate 106 (Fin 0)))"
proof -
  have db: "power_to_db sample_audio_lib (replicate 128 (replicate 22 0))
              = Some (replicate 128 (replicate 22 0))"
    unfolding sample_power_to_db by (rule db_rel_max_constant) simp_all
  have "normalize_log_mel (replicate 128 (replicate 22 0))
          = map (map (\<lambda>x. NaN)) (replicate 128 (replicate 22 (0::real)))"
    by (rule normalize_constant) auto
  then have nz: "normalize_log_mel (replicate 128 (replicate 22 0)) = replicate 128 (replicate 22 NaN)"
    by simp
  have fl: "fix_length (replicate 128 (replicate 22 NaN))
              = replicate 128 (replicate 22 NaN @ replicate (128 - 22) (Fin 0))"
    by (rule fix_length_short) simp
  show ?thesis
    unfolding create_spectrogram_def
    by (simp only: sample_mel_silence db nz fl option.case) simp
qed

lemma first_cell_forward_nan:
  "forward (first_cell_cnn 128) (replicate 128 (replicate 22 NaN @ replicate 106 (Fin 0)))
     = Inr [NaN, NaN, NaN, NaN, NaN, NaN, NaN]"
proof -
  have h: "hidden (first_cell_cnn 128) (replicate 128 (replicate 22 NaN @ replicate 106 (Fin 0)))
             = Some NaN"
    by (simp add: first_cell_cnn_def list_all_iff nth_append)
  have l: "map (\<lambda>i. logit (first_cell_cnn 128) i NaN) [0..<num_classes (first_cell_cnn 128)]
             = [NaN, NaN, NaN, NaN, NaN, NaN, NaN]"
    by (simp add: first_cell_cnn_def EMOTIONS_length upt_7)
  have s: "softmax [NaN, NaN, NaN, NaN, NaN, NaN, NaN] = [NaN, NaN, NaN, NaN, NaN, NaN, NaN]"
    by (simp add: softmax_def)
  show ?thesis unfolding forward_def by (simp only: h l s option.case)
qed

lemma select_nan: "select_emotion [NaN, NaN, NaN, NaN, NaN, NaN, NaN] = Inr (''angry'', NaN)"
  by (simp add: select_emotion_def np_argmax_def EMOTIONS_def)

lemma probs_nan:
  "emotion_probs [NaN, NaN, NaN, NaN, NaN, NaN, NaN] =
     Inr [(''angry'', NaN), (''disgust'', NaN), (''fear'', NaN), (''happy'', NaN),
          (''neutral'', NaN), (''sad'', NaN), (''surprise'', NaN)]"
  by (simp add: emotion_probs_def EMOTIONS_length upt_7) (simp add: EMOTIONS_def)

lemma sample_features_silence_exist:
  "\<exists>f. extract_audio_features sample_audio_lib (replicate 11025 0) = Inr f"
  by (rule sample_features_exist)

lemma sample_audio_silence:
  assumes "extract_audio_features sample_audio_lib (replicate 11025 0) = Inr f"
  shows "detect_emotion_from_audio sample_audio_lib (Some (first_cell_cnn 128)) ''silence'' =
     Inr \<lparr> aud_emotion = ''angry'', aud_confidence = NaN, aud_audio_features = f,
           aud_probabilities =
             [(''angry'', NaN), (''disgust'', NaN), (''fear'', NaN), (''happy'', NaN),
              (''neutral'', NaN), (''sad'', NaN), (''surprise'', NaN)] \<rparr>"
  unfolding detect_emotion_from_audio_def
  by (simp only: sample_decode_silence assms sample_spectrogram_silence first_cell_forward_nan
        select_nan probs_nan option.case sum.case prod.case)

lemma nan_not_maximum:
  "\<not> list_all (\<lambda>(l, p). np_le p NaN)
       [(''angry'', NaN), (''disgust'', NaN), (''fear'', NaN), (''happy'', NaN),
        (''neutral'', NaN), (''sad'', NaN), (''surprise'', NaN)]"
  by simp

text \<open>
  Claim C10, at a failing input.  On half a second of silence the spectrogram holds NaN
  (the unguarded division of \<open>_create_spectrogram\<close>), every probability of the audio
  classifier is NaN, and \<open>detect_emotion_from_audio\<close> returns \<open>angry\<close> with confidence
  NaN: a verdict of the classifier path whose confidence is not the maximum of its
  distribution, no entry of which compares as less than or equal to it.
\<close>

theorem silent_clip_confidence_not_maximum:
  "(\<exists>f. detect_emotion_from_audio sample_audio_lib (Some (first_cell_cnn 128)) ''silence'' =
     Inr \<lparr> aud_emotion = ''angry'', aud_confidence = NaN, aud_audio_features = f,
           aud_probabilities =
             [(''angry'', NaN), (''disgust'', NaN), (''fear'', NaN), (''happy'', NaN),
              (''neutral'', NaN), (''sad'', NaN), (''surprise'', NaN)] \<rparr>) \<and>
   \<not> list_all (\<lambda>(l, p). np_le p NaN)
       [(''angry'', NaN), (''disgust'', NaN), (''fear'', NaN), (''happy'', NaN),
        (''neutral'', NaN), (''sad'', NaN), (''surprise'', NaN)]"
proof (rule conjI)
  from sample_features_silence_exist obtain f
    where f: "extract_audio_features sample_audio_lib (replicate 11025 0) = Inr f" ..
  show "\<exists>f. detect_emotion_from_audio sample_audio_lib (Some (first_cell_cnn 128)) ''silence'' =
     Inr \<lparr> aud_emotion = ''angry'', aud_confidence = NaN, aud_audio_features = f,
           aud_probabilities =
             [(''angry'', NaN), (''disgust'', NaN), (''fear'', NaN), (''happy'', NaN),
              (''neutral'', NaN), (''sad'', NaN), (''surprise'', NaN)] \<rparr>"
    by (rule exI) (rule sample_audio_silence[OF f])
  show "\<not> list_all (\<lambda>(l, p). np_le p NaN)
       [(''angry'', NaN), (''disgust'', NaN), (''fear'', NaN), (''happy'', NaN),
        (''neutral'', NaN), (''sad'', NaN), (''surprise'', NaN)]"
    by (rule nan_not_maximum)
qed

end
